theory Spec2Isabelle
  imports Complex_Main "HOL-Library.Sublist" "HOL-Library.Multiset" "HOL-Library.Char_ord"
    "HOL-Library.List_Lexorder"
begin

section \<open>Data model\<close>

text \<open>
  JavaScript numbers are modelled as rationals: the years, populations and indicators of
  the data set are such values. \<open>NaN\<close>, the infinities and floating-point rounding
  are outside of the model. Strings are lists of characters, ordered lexicographically by
  character code, which is how the default \<open>Array.prototype.sort\<close> compares strings.
\<close>

type_synonym number = rat

text \<open>
  \<open>src/types.ts\<close>, interface \<open>GapminderData\<close>. The field \<open>predicted\<close> is
  optional: \<open>None\<close> is a row without it.
\<close>

record GapminderData =
  country :: string
  continent :: string
  year :: number
  lifeExp :: number
  pop :: number
  gdpPercap :: number
  iso_alpha :: string
  iso_num :: number
  predicted :: "bool option"

text \<open>
  What the CSV parser hands to \<open>fetchData\<close> is dynamically typed: with
  \<open>dynamicTyping\<close> a field is a number, a boolean, a non-empty string, or \<open>null\<close>
  for an empty field. \<open>CUndefined\<close> is a column the record does not have.
\<close>

datatype cell = CUndefined | CNull | CBool bool | CNum number | CStr string

record raw_row =
  raw_country :: cell
  raw_continent :: cell
  raw_year :: cell
  raw_lifeExp :: cell
  raw_pop :: cell
  raw_gdpPercap :: cell
  raw_iso_alpha :: cell
  raw_iso_num :: cell

text \<open>JavaScript's conversion of a value to a boolean (\<open>ToBoolean\<close>).\<close>

fun truthy :: "cell \<Rightarrow> bool" where
  "truthy CUndefined = False"
| "truthy CNull = False"
| "truthy (CBool b) = b"
| "truthy (CNum n) = (n \<noteq> 0)"
| "truthy (CStr s) = (s \<noteq> [])"

text \<open>
  A field is missing when the record has no value for it: the cell is \<open>null\<close> (an empty
  field of the file) or \<open>undefined\<close>.
\<close>

fun missing :: "cell \<Rightarrow> bool" where
  "missing CUndefined = True"
| "missing CNull = True"
| "missing _ = False"

section \<open>Row Normalizer\<close>

text \<open>
  \<open>src/App.tsx\<close>, line 41, in \<open>fetchData\<close>:
  \<^verbatim>\<open>results.data.filter(row => row.country && row.year && row.pop)\<close>.
  The records kept are the parser's objects themselves.
\<close>

definition validData :: "raw_row list \<Rightarrow> raw_row list" where
  "validData results_data =
     filter (\<lambda>row. truthy (raw_country row) \<and> truthy (raw_year row) \<and> truthy (raw_pop row))
       results_data"

text \<open>The three fields the spec calls essential are all present in a record.\<close>

definition fields_present :: "raw_row \<Rightarrow> bool" where
  "fields_present row \<longleftrightarrow>
     \<not> missing (raw_country row) \<and> \<not> missing (raw_year row) \<and> \<not> missing (raw_pop row)"

text \<open>
  The wider notion of the spec (section 4.1), in the spec's words: a numeric field that is
  not parseable as a number is treated as absent. A record is incomplete in that sense
  when its country is missing or its year or population is not a number.
\<close>

fun not_a_number :: "cell \<Rightarrow> bool" where
  "not_a_number (CNum n) = False"
| "not_a_number _ = True"

definition spec_incomplete :: "raw_row \<Rightarrow> bool" where
  "spec_incomplete row \<longleftrightarrow>
     missing (raw_country row) \<or> not_a_number (raw_year row) \<or> not_a_number (raw_pop row)"

text \<open>A record of Canada, 1952, whose population is the number 0.\<close>

definition zero_pop_row :: raw_row where
  "zero_pop_row =
     \<lparr>raw_country = CStr ''Canada'', raw_continent = CStr ''Americas'', raw_year = CNum 1952,
      raw_lifeExp = CNum 68, raw_pop = CNum 0, raw_gdpPercap = CNum 11367,
      raw_iso_alpha = CStr ''CAN'', raw_iso_num = CNum 124\<rparr>"

definition canada_1952 :: raw_row where
  "canada_1952 = zero_pop_row\<lparr>raw_pop := CNum 14785584\<rparr>"

definition no_year_row :: raw_row where
  "no_year_row = canada_1952\<lparr>raw_year := CNull\<rparr>"

text \<open>A record whose population field holds a text that is not a number.\<close>

definition text_pop_row :: raw_row where
  "text_pop_row = canada_1952\<lparr>raw_pop := CStr ''n/a''\<rparr>"

section \<open>Series Index\<close>

text \<open>
  \<open>[...new Set(xs)]\<close>: the distinct elements of \<open>xs\<close>, each at the place of its first
  occurrence (a \<open>Set\<close> iterates in insertion order).
\<close>

definition Set_spread :: "'a list \<Rightarrow> 'a list" where
  "Set_spread xs = fold (\<lambda>x acc. if x \<in> set acc then acc else acc @ [x]) xs []"

text \<open>
  \<open>src/App.tsx\<close>, line 44, in \<open>fetchData\<close>:
  \<^verbatim>\<open>[...new Set(validData.map((item) => item.country))].sort()\<close>.
  The default sort orders strings by their character codes.
\<close>

definition uniqueCountries :: "GapminderData list \<Rightarrow> string list" where
  "uniqueCountries validData' = sort (Set_spread (map country validData'))"

text \<open>
  \<open>src/App.tsx\<close>, lines 147--151, \<open>filteredData\<close>:
  \<^verbatim>\<open>data.filter(item => item.country === selectedCountry).sort((a, b) => a.year - b.year)\<close>.
  \<open>Array.prototype.sort\<close> is stable, and so is \<open>sort_key\<close>.
\<close>

definition filteredData :: "GapminderData list \<Rightarrow> string \<Rightarrow> GapminderData list" where
  "filteredData data' selectedCountry' =
     sort_key year (filter (\<lambda>item. country item = selectedCountry') data')"

text \<open>Rows of the examples: a historical row of a country, a year and a population.\<close>

definition hist_row :: "string \<Rightarrow> number \<Rightarrow> number \<Rightarrow> GapminderData" where
  "hist_row c y p =
     \<lparr>country = c, continent = ''Americas'', year = y, lifeExp = 70, pop = p,
      gdpPercap = 10000, iso_alpha = ''XXX'', iso_num = 1, predicted = None\<rparr>"

definition index_example :: "GapminderData list" where
  "index_example =
     [hist_row ''Chile'' 2007 3, hist_row ''Canada'' 1957 5, hist_row ''Chile'' 1952 4,
      hist_row ''Canada'' 1952 1, hist_row ''Canada'' 1952 2]"

section \<open>View state\<close>

text \<open>The \<open>useState\<close> cells of \<open>App\<close> (\<open>src/App.tsx\<close>, lines 12--19).\<close>

record App_state =
  data :: "GapminderData list"
  originalData :: "GapminderData list"
  countries :: "string list"
  selectedCountry :: string
  loading :: bool
  error :: "string option"
  showPrediction :: bool
  predicting :: bool

definition initial_state :: App_state where
  "initial_state =
     \<lparr>data = [], originalData = [], countries = [], selectedCountry = ''Canada'',
      loading = True, error = None, showPrediction = False, predicting = False\<rparr>"

text \<open>
  \<open>src/App.tsx\<close>, lines 42--46: what the \<open>complete\<close> callback of the parser stores
  when there is no parse error, \<open>rows\<close> being the valid records seen through the
  interface \<open>GapminderData\<close>.
\<close>

definition fetchData_complete :: "GapminderData list \<Rightarrow> App_state \<Rightarrow> App_state" where
  "fetchData_complete rows s =
     s\<lparr>data := rows, originalData := rows, countries := uniqueCountries rows, loading := False\<rparr>"

text \<open>The test \<open>d.predicted\<close>: an absent field is falsy.\<close>

definition is_predicted :: "GapminderData \<Rightarrow> bool" where
  "is_predicted d \<longleftrightarrow> predicted d = Some True"

section \<open>Forecast Merger\<close>

text \<open>
  \<open>Math.max(...xs)\<close>. Without arguments it is \<open>-Infinity\<close>, which \<open>None\<close> stands
  for; both callers test for an empty array first.
\<close>

fun Math_max :: "number list \<Rightarrow> number option" where
  "Math_max [] = None"
| "Math_max (x # xs) = Some (fold max xs x)"

text \<open>\<open>xs.slice(-n)\<close>: the last \<open>n\<close> elements, all of them when there are fewer.\<close>

definition slice_last :: "nat \<Rightarrow> 'a list \<Rightarrow> 'a list" where
  "slice_last n xs = drop (length xs - n) xs"

text \<open>
  A forecast request in flight: what the prompt of \<open>handlePredictionToggle\<close> interpolates
  (the country, \<open>recentData\<close>, \<open>lastYear + 1\<close> and the year 2025), and the variables
  \<open>selectedCountry\<close> and \<open>countryData\<close> its continuation reads after the \<open>await\<close>.
\<close>

record forecast_request =
  req_selectedCountry :: string
  req_countryData :: "GapminderData list"
  req_recentData :: "(number \<times> number) list"
  req_rangeStart :: "number option"
  req_rangeEnd :: number

text \<open>
  How the awaited call ends: the call or \<open>JSON.parse\<close> throws (with the message of the
  \<open>Error\<close>, if it is one), the decoded payload is not an array, or it is an array
  of \<open>(year, pop)\<close> pairs.
\<close>

datatype oracle_result =
    Rejected "string option"
  | NotAnArray
  | PredictedValues "(number \<times> number) list"

text \<open>\<open>src/App.tsx\<close>, lines 114--124, \<open>newPredictedData\<close>.\<close>

definition newPredictedData ::
  "string \<Rightarrow> GapminderData list \<Rightarrow> (number \<times> number) list \<Rightarrow> GapminderData list" where
  "newPredictedData selectedCountry' countryData predictedValues =
     map (\<lambda>(p_year, p_pop).
        \<lparr>country = selectedCountry',
         continent = (case countryData of [] \<Rightarrow> [] | d # _ \<Rightarrow> continent d),
         year = p_year,
         lifeExp = 0,
         pop = p_pop,
         gdpPercap = 0,
         iso_alpha = (case countryData of [] \<Rightarrow> [] | d # _ \<Rightarrow> iso_alpha d),
         iso_num = (case countryData of [] \<Rightarrow> 0 | d # _ \<Rightarrow> iso_num d),
         predicted = Some True\<rparr>) predictedValues"

text \<open>
  \<open>src/App.tsx\<close>, line 126, the updater handed to \<open>setData\<close>:
  \<^verbatim>\<open>prevData => [...prevData.filter(d => !d.predicted), ...newPredictedData]\<close>.
\<close>

definition mergeForecast :: "GapminderData list \<Rightarrow> GapminderData list \<Rightarrow> GapminderData list" where
  "mergeForecast prevData newRows = filter (\<lambda>d. \<not> is_predicted d) prevData @ newRows"

section \<open>View State Controller\<close>

text \<open>
  \<open>src/App.tsx\<close>, lines 66--88: \<open>handlePredictionToggle\<close> up to its \<open>await\<close>. The
  result is the new state and the request it issues, if any.
\<close>

definition handlePredictionToggle :: "bool \<Rightarrow> App_state \<Rightarrow> App_state \<times> forecast_request option" where
  "handlePredictionToggle checked s =
     (let s1 = s\<lparr>showPrediction := checked\<rparr> in
      if \<not> checked then (s1\<lparr>data := originalData s\<rparr>, None)
      else
        let s2 = s1\<lparr>predicting := True, error := None\<rparr>;
            countryData = filter (\<lambda>d. country d = selectedCountry s) (originalData s)
        in
          if length countryData = 0 then
            (s2\<lparr>error := Some ''No data available for this country to make a prediction.'',
                predicting := False\<rparr>, None)
          else
            let lastYear = Math_max (map year countryData);
                recentData = map (\<lambda>d. (year d, pop d)) (slice_last 10 countryData)
            in (s2, Some \<lparr>req_selectedCountry = selectedCountry s,
                          req_countryData = countryData,
                          req_recentData = recentData,
                          req_rangeStart = map_option (\<lambda>y. y + 1) lastYear,
                          req_rangeEnd = 2025\<rparr>))"

text \<open>
  \<open>src/App.tsx\<close>, lines 109--135: the continuation of \<open>handlePredictionToggle\<close> once
  the awaited call has ended, run on the state of that moment.
\<close>

definition handlePredictionToggle_resume ::
  "forecast_request \<Rightarrow> oracle_result \<Rightarrow> App_state \<Rightarrow> App_state" where
  "handlePredictionToggle_resume req result s =
     (case result of
        PredictedValues predictedValues \<Rightarrow>
          s\<lparr>data := mergeForecast (data s)
                 (newPredictedData (req_selectedCountry req) (req_countryData req) predictedValues),
            predicting := False\<rparr>
      | NotAnArray \<Rightarrow>
          s\<lparr>error := Some (''Failed to generate prediction: '' @
                 ''Prediction API did not return an array.''),
            showPrediction := False, predicting := False\<rparr>
      | Rejected msg \<Rightarrow>
          s\<lparr>error := Some (''Failed to generate prediction: '' @
                 (case msg of Some m \<Rightarrow> m | None \<Rightarrow> ''An unknown error occurred'')),
            showPrediction := False, predicting := False\<rparr>)"

text \<open>
  \<open>src/App.tsx\<close>, lines 138--144: the effect run after a render in which
  \<open>selectedCountry\<close> or \<open>showPrediction\<close> changed.
\<close>

definition useEffect_prediction :: "App_state \<Rightarrow> App_state \<times> forecast_request option" where
  "useEffect_prediction s =
     (if showPrediction s then handlePredictionToggle True s else (s, None))"

text \<open>
  The country selector and the checkbox are disabled while \<open>loading\<close> or
  \<open>predicting\<close> (\<open>src/App.tsx\<close>, lines 191 and 200), and \<open>renderContent\<close> (lines
  159--181) draws neither while \<open>loading\<close> or with an \<open>error\<close>.
\<close>

definition controls_enabled :: "App_state \<Rightarrow> bool" where
  "controls_enabled s \<longleftrightarrow> \<not> loading s \<and> error s = None \<and> \<not> predicting s"

text \<open>
  The country selector (\<open>CountrySelector\<close>, and \<open>src/App.tsx\<close>, lines 187--192). A
  change of the selection is followed by the effect; choosing the selected country again
  changes nothing.
\<close>

definition onCountryChange :: "string \<Rightarrow> App_state \<Rightarrow> App_state \<times> forecast_request option" where
  "onCountryChange c s =
     (if controls_enabled s \<and> c \<noteq> selectedCountry s
      then useEffect_prediction (s\<lparr>selectedCountry := c\<rparr>)
      else (s, None))"

text \<open>
  The checkbox (\<open>src/App.tsx\<close>, lines 195--200): the handler runs, and the effect
  follows when \<open>showPrediction\<close> changed. The result lists the
  requests issued.
\<close>

definition checkbox_onChange :: "bool \<Rightarrow> App_state \<Rightarrow> App_state \<times> forecast_request list" where
  "checkbox_onChange checked s =
     (if controls_enabled s then
        let (s1, r1) = handlePredictionToggle checked s;
            (s2, r2) = (if showPrediction s1 = showPrediction s then (s1, None)
                        else useEffect_prediction s1)
        in (s2, (case r1 of None \<Rightarrow> [] | Some r \<Rightarrow> [r]) @
                (case r2 of None \<Rightarrow> [] | Some r \<Rightarrow> [r]))
      else (s, []))"

text \<open>\<open>src/App.tsx\<close>, lines 153--156, \<open>lastHistoricalYear\<close>; \<open>None\<close> is \<open>undefined\<close>.\<close>

definition lastHistoricalYear :: "GapminderData list \<Rightarrow> number option" where
  "lastHistoricalYear filteredData' =
     (let historicalData = filter (\<lambda>d. \<not> is_predicted d) filteredData' in
      if length historicalData > 0 then Math_max (map year historicalData) else None)"

text \<open>
  \<open>src/components/PopulationChart.tsx\<close>, line 79: the condition under which the chart
  draws the prediction area that starts at the boundary year,
  \<^verbatim>\<open>lastHistoricalYear && data.some(d => d.predicted)\<close>.
\<close>

definition ReferenceArea_shown :: "GapminderData list \<Rightarrow> number option \<Rightarrow> bool" where
  "ReferenceArea_shown chart_data lastHistoricalYear' \<longleftrightarrow>
     (case lastHistoricalYear' of None \<Rightarrow> False | Some y \<Rightarrow> y \<noteq> 0) \<and>
     list_ex is_predicted chart_data"

section \<open>Example states\<close>

definition two_countries :: "GapminderData list" where
  "two_countries = [hist_row ''Canada'' 2007 33390141, hist_row ''Chile'' 2007 16284741]"

text \<open>The state after a successful load of \<open>two_countries\<close>; Canada is selected.\<close>

definition ready_state :: App_state where
  "ready_state = fetchData_complete two_countries initial_state"

text \<open>The request \<open>handlePredictionToggle\<close> issues in \<open>ready_state\<close>.\<close>

definition canada_request :: forecast_request where
  "canada_request =
     \<lparr>req_selectedCountry = ''Canada'', req_countryData = [hist_row ''Canada'' 2007 33390141],
      req_recentData = [(2007, 33390141)], req_rangeStart = Some 2008, req_rangeEnd = 2025\<rparr>"

definition chile_request :: forecast_request where
  "chile_request =
     \<lparr>req_selectedCountry = ''Chile'', req_countryData = [hist_row ''Chile'' 2007 16284741],
      req_recentData = [(2007, 16284741)], req_rangeStart = Some 2008, req_rangeEnd = 2025\<rparr>"

definition predicted_row :: "string \<Rightarrow> number \<Rightarrow> number \<Rightarrow> GapminderData" where
  "predicted_row c y p =
     \<lparr>country = c, continent = ''Americas'', year = y, lifeExp = 0, pop = p,
      gdpPercap = 0, iso_alpha = ''XXX'', iso_num = 1, predicted = Some True\<rparr>"

text \<open>Chile is selected and its forecast has been merged.\<close>

definition chile_forecast_state :: App_state where
  "chile_forecast_state =
     \<lparr>data = two_countries @ [predicted_row ''Chile'' 2008 17000000],
      originalData = two_countries, countries = [''Canada'', ''Chile''],
      selectedCountry = ''Chile'', loading = False, error = None, showPrediction = True,
      predicting = False\<rparr>"

text \<open>A data set without a row of the country selected at startup.\<close>

definition chile_only_state :: App_state where
  "chile_only_state = fetchData_complete [hist_row ''Chile'' 2007 16284741] initial_state"

text \<open>Eleven rows of Canada, the most recent one first in the file.\<close>

definition unsorted_canada :: "GapminderData list" where
  "unsorted_canada =
     [hist_row ''Canada'' 2007 33, hist_row ''Canada'' 1952 14, hist_row ''Canada'' 1957 17,
      hist_row ''Canada'' 1962 18, hist_row ''Canada'' 1967 20, hist_row ''Canada'' 1972 22,
      hist_row ''Canada'' 1977 23, hist_row ''Canada'' 1982 25, hist_row ''Canada'' 1987 26,
      hist_row ''Canada'' 1992 28, hist_row ''Canada'' 1997 30]"

definition unsorted_state :: App_state where
  "unsorted_state = fetchData_complete unsorted_canada initial_state"

text \<open>Twelve rows of Canada in ascending order of year.\<close>

definition canada_series :: "GapminderData list" where
  "canada_series =
     [hist_row ''Canada'' 1952 14, hist_row ''Canada'' 1957 17, hist_row ''Canada'' 1962 18,
      hist_row ''Canada'' 1967 20, hist_row ''Canada'' 1972 22, hist_row ''Canada'' 1977 23,
      hist_row ''Canada'' 1982 25, hist_row ''Canada'' 1987 26, hist_row ''Canada'' 1992 28,
      hist_row ''Canada'' 1997 30, hist_row ''Canada'' 2002 31, hist_row ''Canada'' 2007 33]"

definition canada_state :: App_state where
  "canada_state = fetchData_complete canada_series initial_state"

definition boundary_example :: "GapminderData list" where
  "boundary_example =
     [hist_row ''Canada'' 1952 14, hist_row ''Canada'' 2007 33, predicted_row ''Canada'' 2008 34]"

section \<open>Properties of the Row Normalizer\<close>

lemma truthy_not_missing: "truthy c \<Longrightarrow> \<not> missing c"
  by (cases c) simp_all

lemma count_list_filter:
  "count_list (filter P xs) x = (if P x then count_list xs x else 0)"
  by (induction xs) auto

text \<open>
  C6, as stated, fails, in both of its parts. A record whose country, year and population
  are all present, the population being the number 0, is complete and has no row in the
  output. A record whose population is a text that is not a number, which the spec treats
  as absent, is kept.
\<close>

theorem validData_drops_present_record:
  "fields_present zero_pop_row \<and> \<not> spec_incomplete zero_pop_row \<and>
   zero_pop_row \<notin> set (validData [zero_pop_row]) \<and>
   spec_incomplete text_pop_row \<and>
   text_pop_row \<in> set (validData [text_pop_row])"
  by (simp add: fields_present_def spec_incomplete_def validData_def zero_pop_row_def
      canada_1952_def text_pop_row_def)

text \<open>
  C6, amended: the output of the Row Normalizer is exactly the input records whose country,
  year and population are all truthy (not \<open>null\<close>, \<open>undefined\<close>, \<open>false\<close>, the
  number 0 or the empty string), each unchanged, in input order and as often as it occurs
  in the input. Hence every record whose country, year or population is \<open>null\<close> or
  \<open>undefined\<close> is excluded, and so is every record in which one of them is falsy; every
  record in which the three are truthy is kept, also when its year or population is a text
  that is not a number.
\<close>

theorem validData_keeps_truthy_records:
  "validData rows =
     filter (\<lambda>row. truthy (raw_country row) \<and> truthy (raw_year row) \<and> truthy (raw_pop row))
       rows \<and>
   subseq (validData rows) rows \<and>
   (\<forall>row. count_list (validData rows) row =
      (if truthy (raw_country row) \<and> truthy (raw_year row) \<and> truthy (raw_pop row)
       then count_list rows row else 0)) \<and>
   (\<forall>row \<in> set rows. \<not> fields_present row \<longrightarrow> row \<notin> set (validData rows)) \<and>
   (\<forall>row \<in> set rows.
      \<not> (truthy (raw_country row) \<and> truthy (raw_year row) \<and> truthy (raw_pop row))
        \<longrightarrow> row \<notin> set (validData rows)) \<and>
   (\<forall>row \<in> set rows.
      truthy (raw_country row) \<and> truthy (raw_year row) \<and> truthy (raw_pop row)
        \<longrightarrow> row \<in> set (validData rows))"
proof -
  have exact: "validData rows =
     filter (\<lambda>row. truthy (raw_country row) \<and> truthy (raw_year row) \<and> truthy (raw_pop row))
       rows"
    by (simp add: validData_def)
  have counts: "\<forall>row. count_list (validData rows) row =
      (if truthy (raw_country row) \<and> truthy (raw_year row) \<and> truthy (raw_pop row)
       then count_list rows row else 0)"
    unfolding exact by (simp add: count_list_filter)
  have absent: "\<forall>row \<in> set rows. \<not> fields_present row \<longrightarrow> row \<notin> set (validData rows)"
    unfolding exact by (auto simp: fields_present_def dest: truthy_not_missing)
  have rest: "subseq (validData rows) rows \<and>
     (\<forall>row \<in> set rows.
        \<not> (truthy (raw_country row) \<and> truthy (raw_year row) \<and> truthy (raw_pop row))
          \<longrightarrow> row \<notin> set (validData rows)) \<and>
     (\<forall>row \<in> set rows.
        truthy (raw_country row) \<and> truthy (raw_year row) \<and> truthy (raw_pop row)
          \<longrightarrow> row \<in> set (validData rows))"
    unfolding exact by simp
  show ?thesis
    using exact counts absent rest by blast
qed

theorem validData_keeps_truthy_records_witness:
  "\<not> fields_present no_year_row \<and>
   \<not> truthy (raw_pop zero_pop_row) \<and>
   truthy (raw_country canada_1952) \<and> truthy (raw_year canada_1952) \<and>
   truthy (raw_pop canada_1952) \<and>
   truthy (raw_country text_pop_row) \<and> truthy (raw_year text_pop_row) \<and>
   truthy (raw_pop text_pop_row) \<and>
   validData [canada_1952, no_year_row, zero_pop_row, text_pop_row, canada_1952] =
     [canada_1952, text_pop_row, canada_1952] \<and>
   count_list (validData [canada_1952, no_year_row, zero_pop_row, text_pop_row, canada_1952])
     canada_1952 = 2 \<and>
   no_year_row \<notin>
     set (validData [canada_1952, no_year_row, zero_pop_row, text_pop_row, canada_1952]) \<and>
   zero_pop_row \<notin>
     set (validData [canada_1952, no_year_row, zero_pop_row, text_pop_row, canada_1952]) \<and>
   subseq (validData [canada_1952, no_year_row, zero_pop_row, text_pop_row, canada_1952])
     [canada_1952, no_year_row, zero_pop_row, text_pop_row, canada_1952]"
  using validData_keeps_truthy_records
    [of "[canada_1952, no_year_row, zero_pop_row, text_pop_row, canada_1952]"]
  by (simp add: fields_present_def validData_def zero_pop_row_def canada_1952_def
      no_year_row_def text_pop_row_def)

text \<open>
  C10: a record whose country, year and population are all present, but whose population
  is 0, whose year is 0 or whose country is the empty string, is excluded from the output
  of the Row Normalizer.
\<close>

theorem validData_excludes_falsy:
  "fields_present row \<Longrightarrow>
   raw_pop row = CNum 0 \<or> raw_year row = CNum 0 \<or> raw_country row = CStr [] \<Longrightarrow>
   row \<notin> set (validData rows)"
  by (auto simp: validData_def)

theorem validData_excludes_falsy_witness:
  "fields_present zero_pop_row \<and> raw_pop zero_pop_row = CNum 0 \<and>
   zero_pop_row \<notin> set (validData [canada_1952, zero_pop_row])"
  using validData_excludes_falsy [of zero_pop_row "[canada_1952, zero_pop_row]"]
  by (simp add: fields_present_def zero_pop_row_def)

section \<open>Properties of the Series Index\<close>

lemma set_fold_Set_spread:
  "set (fold (\<lambda>x acc. if x \<in> set acc then acc else acc @ [x]) xs acc0) = set acc0 \<union> set xs"
  by (induction xs arbitrary: acc0) auto

lemma distinct_fold_Set_spread:
  "distinct acc0 \<Longrightarrow>
   distinct (fold (\<lambda>x acc. if x \<in> set acc then acc else acc @ [x]) xs acc0)"
  by (induction xs arbitrary: acc0) auto

lemma set_Set_spread: "set (Set_spread xs) = set xs"
  by (simp add: Set_spread_def set_fold_Set_spread)

lemma distinct_Set_spread: "distinct (Set_spread xs)"
  by (simp add: Set_spread_def distinct_fold_Set_spread)

lemma filteredData_stable:
  "filter (\<lambda>r. year r = y) (filteredData rows c) =
   filter (\<lambda>r. year r = y) (filter (\<lambda>r. country r = c) rows)"
  unfolding filteredData_def by (rule sort_key_stable)

text \<open>
  C7: the countries of the Series Index are the distinct country values of the input, in
  ascending lexicographic order; for every country \<open>c\<close> the per-country sequence holds
  the rows of \<open>c\<close>, is sorted ascending by year, and rows of the same year keep their
  input order.
\<close>

theorem series_index_sorted:
  "sorted (uniqueCountries rows) \<and> distinct (uniqueCountries rows) \<and>
   set (uniqueCountries rows) = country ` set rows \<and>
   (\<forall>c. sorted (map year (filteredData rows c)) \<and>
        mset (filteredData rows c) = mset (filter (\<lambda>r. country r = c) rows) \<and>
        (\<forall>y. filter (\<lambda>r. year r = y) (filteredData rows c) =
             filter (\<lambda>r. year r = y) (filter (\<lambda>r. country r = c) rows)))"
  by (simp add: uniqueCountries_def set_Set_spread distinct_Set_spread filteredData_stable)
     (simp add: filteredData_def)

theorem series_index_sorted_witness:
  "uniqueCountries index_example = [''Canada'', ''Chile''] \<and>
   sorted (uniqueCountries index_example) \<and>
   filteredData index_example ''Canada'' =
     [hist_row ''Canada'' 1952 1, hist_row ''Canada'' 1952 2, hist_row ''Canada'' 1957 5] \<and>
   sorted (map year (filteredData index_example ''Canada''))"
  using series_index_sorted [of index_example]
  by (simp add: uniqueCountries_def Set_spread_def filteredData_def index_example_def
      hist_row_def)

section \<open>Properties of the Forecast Merger\<close>

lemma Math_max_Max: "xs \<noteq> [] \<Longrightarrow> Math_max xs = Some (Max (set xs))"
  by (cases xs) (simp_all add: Max.set_eq_fold [symmetric])

lemma newPredictedData_predicted: "d \<in> set (newPredictedData c cd vs) \<Longrightarrow> is_predicted d"
  by (auto simp: newPredictedData_def is_predicted_def)

lemma newPredictedData_country: "d \<in> set (newPredictedData c cd vs) \<Longrightarrow> country d = c"
  by (auto simp: newPredictedData_def)




lemma data_resume_PredictedValues:
  "data (handlePredictionToggle_resume req (PredictedValues vs) s) =
   mergeForecast (data s) (newPredictedData (req_selectedCountry req) (req_countryData req) vs)"
  by (simp add: handlePredictionToggle_resume_def)



text \<open>
  C9: after a successful forecast merge, every row of the whole data set that is tagged
  as predicted has the country of that forecast: the predicted rows are exactly the rows
  made from its batch.
\<close>

theorem predicted_rows_of_one_country:
  "(\<forall>d \<in> set (data (handlePredictionToggle_resume req (PredictedValues vs) s)).
      is_predicted d \<longrightarrow> country d = req_selectedCountry req) \<and>
   filter is_predicted (data (handlePredictionToggle_resume req (PredictedValues vs) s)) =
     newPredictedData (req_selectedCountry req) (req_countryData req) vs"
  by (auto simp: data_resume_PredictedValues mergeForecast_def filter_id_conv
      newPredictedData_predicted newPredictedData_country)

theorem predicted_rows_of_one_country_witness:
  "filter is_predicted (data chile_forecast_state) = [predicted_row ''Chile'' 2008 17000000] \<and>
   filter is_predicted
     (data (handlePredictionToggle_resume canada_request (PredictedValues [(2008, 34)])
        chile_forecast_state)) = [predicted_row ''Canada'' 2008 34] \<and>
   list_all (\<lambda>d. country d = ''Canada'')
     (filter is_predicted
       (data (handlePredictionToggle_resume canada_request (PredictedValues [(2008, 34)])
          chile_forecast_state)))"
  using predicted_rows_of_one_country [of canada_request "[(2008, 34)]" chile_forecast_state]
  by (simp add: chile_forecast_state_def two_countries_def hist_row_def predicted_row_def
      canada_request_def newPredictedData_def is_predicted_def)

section \<open>Properties of the boundary year\<close>

text \<open>
  C5: the boundary year is the maximum year among the non-predicted rows; when there is
  no non-predicted row it is undefined, and the chart draws no prediction area. The
  forecast request starts one year after the boundary year of the historical rows of the
  selected country.
\<close>

theorem lastHistoricalYear_is_max:
  "(filter (\<lambda>d. \<not> is_predicted d) rows \<noteq> [] \<longrightarrow>
      lastHistoricalYear rows = Some (Max (year ` {d \<in> set rows. \<not> is_predicted d}))) \<and>
   (filter (\<lambda>d. \<not> is_predicted d) rows = [] \<longrightarrow>
      lastHistoricalYear rows = None \<and>
      \<not> ReferenceArea_shown chart_data (lastHistoricalYear rows)) \<and>
   (rows = filter (\<lambda>d. country d = selectedCountry s) (originalData s) \<and> rows \<noteq> [] \<and>
    (\<forall>d \<in> set (originalData s). \<not> is_predicted d) \<longrightarrow>
      map_option req_rangeStart (snd (handlePredictionToggle True s)) =
        Some (map_option (\<lambda>y. y + 1) (lastHistoricalYear rows)))"
proof -
  have img: "set (map year (filter (\<lambda>d. \<not> is_predicted d) rows)) =
      year ` {d \<in> set rows. \<not> is_predicted d}"
    by auto
  have max_case:
    "lastHistoricalYear rows = Some (Max (year ` {d \<in> set rows. \<not> is_predicted d}))"
    if "filter (\<lambda>d. \<not> is_predicted d) rows \<noteq> []"
    using that Math_max_Max [of "map year (filter (\<lambda>d. \<not> is_predicted d) rows)"]
    by (simp add: lastHistoricalYear_def img del: set_map set_filter)
  have none_case: "lastHistoricalYear rows = None \<and>
      \<not> ReferenceArea_shown chart_data (lastHistoricalYear rows)"
    if "filter (\<lambda>d. \<not> is_predicted d) rows = []"
    using that by (simp add: lastHistoricalYear_def ReferenceArea_shown_def)
  have range_case: "map_option req_rangeStart (snd (handlePredictionToggle True s)) =
        Some (map_option (\<lambda>y. y + 1) (lastHistoricalYear rows))"
    if rows: "rows = filter (\<lambda>d. country d = selectedCountry s) (originalData s)"
      and "rows \<noteq> []" and hist: "\<forall>d \<in> set (originalData s). \<not> is_predicted d"
  proof -
    have "filter (\<lambda>d. \<not> is_predicted d) rows = rows"
      unfolding rows filter_id_conv using hist by auto
    then have "lastHistoricalYear rows = Math_max (map year rows)"
      using \<open>rows \<noteq> []\<close> by (simp add: lastHistoricalYear_def)
    then show ?thesis
      using \<open>rows \<noteq> []\<close>
      by (simp add: handlePredictionToggle_def Let_def flip: rows)
  qed
  show ?thesis
    using max_case none_case range_case by blast
qed

theorem lastHistoricalYear_is_max_witness:
  "filter (\<lambda>d. \<not> is_predicted d) boundary_example \<noteq> [] \<and>
   lastHistoricalYear boundary_example = Some 2007 \<and>
   filter (\<lambda>d. \<not> is_predicted d) [predicted_row ''Canada'' 2008 34] = [] \<and>
   lastHistoricalYear [predicted_row ''Canada'' 2008 34] = None \<and>
   \<not> ReferenceArea_shown [predicted_row ''Canada'' 2008 34]
       (lastHistoricalYear [predicted_row ''Canada'' 2008 34]) \<and>
   canada_series =
     filter (\<lambda>d. country d = selectedCountry canada_state) (originalData canada_state) \<and>
   canada_series \<noteq> [] \<and>
   list_all (\<lambda>d. \<not> is_predicted d) (originalData canada_state) \<and>
   lastHistoricalYear canada_series = Some 2007 \<and>
   map_option req_rangeStart (snd (handlePredictionToggle True canada_state)) = Some (Some 2008)"
  using lastHistoricalYear_is_max [of boundary_example]
    lastHistoricalYear_is_max [of "[predicted_row ''Canada'' 2008 34]"
      "[predicted_row ''Canada'' 2008 34]"]
    lastHistoricalYear_is_max [of canada_series chart_data canada_state]
  by (simp add: boundary_example_def hist_row_def predicted_row_def is_predicted_def
      lastHistoricalYear_def handlePredictionToggle_def canada_state_def canada_series_def
      fetchData_complete_def initial_state_def)

section \<open>Properties of the View State Controller\<close>

lemma handlePredictionToggle_False:
  "handlePredictionToggle False s = (s\<lparr>showPrediction := False, data := originalData s\<rparr>, None)"
  by (simp add: handlePredictionToggle_def)

text \<open>
  C8: turning the prediction off reverts the data to the loaded data set, so the working
  series is the historical series of the selected country, without a forecast request,
  neither from the handler nor from the effect that follows; no row of it is tagged as
  predicted, the loaded data set holding no such row.
\<close>

theorem toggle_off_reverts:
  "handlePredictionToggle False s = (s\<lparr>showPrediction := False, data := originalData s\<rparr>, None) \<and>
   filteredData (data (fst (handlePredictionToggle False s)))
       (selectedCountry (fst (handlePredictionToggle False s))) =
     filteredData (originalData s) (selectedCountry s) \<and>
   snd (useEffect_prediction (fst (handlePredictionToggle False s))) = None \<and>
   (\<not> loading s \<and> error s = None \<and> \<not> predicting s \<longrightarrow>
      checkbox_onChange False s = (s\<lparr>showPrediction := False, data := originalData s\<rparr>, [])) \<and>
   ((\<forall>d \<in> set (originalData s). \<not> is_predicted d) \<longrightarrow>
      (\<forall>d \<in> set (filteredData (data (fst (handlePredictionToggle False s)))
                   (selectedCountry (fst (handlePredictionToggle False s)))).
         \<not> is_predicted d))"
  by (simp add: handlePredictionToggle_False useEffect_prediction_def checkbox_onChange_def
      controls_enabled_def
      filteredData_def)

theorem toggle_off_reverts_witness:
  "\<not> loading chile_forecast_state \<and> error chile_forecast_state = None \<and>
   \<not> predicting chile_forecast_state \<and>
   list_all (\<lambda>d. \<not> is_predicted d) (originalData chile_forecast_state) \<and>
   filteredData (data chile_forecast_state) ''Chile'' =
     [hist_row ''Chile'' 2007 16284741, predicted_row ''Chile'' 2008 17000000] \<and>
   checkbox_onChange False chile_forecast_state =
     (chile_forecast_state\<lparr>showPrediction := False, data := two_countries\<rparr>, []) \<and>
   filteredData (data (fst (handlePredictionToggle False chile_forecast_state))) ''Chile'' =
     [hist_row ''Chile'' 2007 16284741]"
  using toggle_off_reverts [of chile_forecast_state]
  by (simp add: chile_forecast_state_def two_countries_def hist_row_def predicted_row_def
      is_predicted_def filteredData_def)

section \<open>Properties of the forecast request\<close>

lemma sorted_tail_above:
  "sorted (map f xs) \<Longrightarrow>
   sorted (map f (drop n xs)) \<and> (\<forall>d \<in> set (take n xs). \<forall>e \<in> set (drop n xs). f d \<le> f e)"
proof -
  assume "sorted (map f xs)"
  then have "sorted (map f (take n xs) @ map f (drop n xs))"
    by (simp flip: map_append)
  then show ?thesis
    by (auto simp: sorted_append)
qed

text \<open>
  C4, at the failing input: the row of 2007 is first in the file and ten older rows follow
  it. The rows handed to the oracle as recent data are the last ten in the order of the
  file: they have the years 1952 to 1997 and lack 2007, the most recent year, while the
  requested range starts at 2008. The ten chronologically last rows, which the sorted
  working series gives, are those of 1957 to 2007.
\<close>

theorem recentData_follows_file_order:
  "map_option req_recentData (snd (handlePredictionToggle True unsorted_state)) =
     Some [(1952, 14), (1957, 17), (1962, 18), (1967, 20), (1972, 22), (1977, 23), (1982, 25),
           (1987, 26), (1992, 28), (1997, 30)] \<and>
   map_option req_rangeStart (snd (handlePredictionToggle True unsorted_state)) =
     Some (Some 2008) \<and>
   map year (slice_last 10 (filteredData (originalData unsorted_state) ''Canada'')) =
     [1957, 1962, 1967, 1972, 1977, 1982, 1987, 1992, 1997, 2007]"
  by (simp add: handlePredictionToggle_def unsorted_state_def fetchData_complete_def
      initial_state_def unsorted_canada_def hist_row_def slice_last_def filteredData_def)

text \<open>
  The request in general. For a non-empty historical series of the selected country it
  carries the last ten rows of that series as the data set orders them (all of them when
  there are fewer), reduced to pairs of year and population, and asks for the range from
  the boundary year plus one to 2025. When the series is in ascending order of year these
  rows are the chronologically last ones, in ascending order. For an empty series no
  request is issued and the error message is set.
\<close>

lemma forecast_request_input:
  "countryData = filter (\<lambda>d. country d = selectedCountry s) (originalData s) \<Longrightarrow>
   (countryData \<noteq> [] \<longrightarrow>
      snd (handlePredictionToggle True s) =
        Some \<lparr>req_selectedCountry = selectedCountry s, req_countryData = countryData,
              req_recentData =
                map (\<lambda>d. (year d, pop d)) (drop (length countryData - 10) countryData),
              req_rangeStart = Some (Max (year ` set countryData) + 1),
              req_rangeEnd = 2025\<rparr> \<and>
      length (drop (length countryData - 10) countryData) = min 10 (length countryData)) \<and>
   (countryData \<noteq> [] \<and> sorted (map year countryData) \<longrightarrow>
      sorted (map year (drop (length countryData - 10) countryData)) \<and>
      (\<forall>d \<in> set (take (length countryData - 10) countryData).
         \<forall>e \<in> set (drop (length countryData - 10) countryData). year d \<le> year e)) \<and>
   (countryData = [] \<longrightarrow>
      snd (handlePredictionToggle True s) = None \<and>
      error (fst (handlePredictionToggle True s)) =
        Some ''No data available for this country to make a prediction.'')"
proof -
  assume cd: "countryData = filter (\<lambda>d. country d = selectedCountry s) (originalData s)"
  have request: "snd (handlePredictionToggle True s) =
        Some \<lparr>req_selectedCountry = selectedCountry s, req_countryData = countryData,
              req_recentData =
                map (\<lambda>d. (year d, pop d)) (drop (length countryData - 10) countryData),
              req_rangeStart = Some (Max (year ` set countryData) + 1),
              req_rangeEnd = 2025\<rparr>"
    if "countryData \<noteq> []"
    using that Math_max_Max [of "map year countryData"]
    by (simp add: handlePredictionToggle_def Let_def slice_last_def flip: cd)
  have nodata: "snd (handlePredictionToggle True s) = None \<and>
      error (fst (handlePredictionToggle True s)) =
        Some ''No data available for this country to make a prediction.''"
    if "countryData = []"
    using that by (simp add: handlePredictionToggle_def Let_def flip: cd)
  have len: "length (drop (length countryData - 10) countryData) = min 10 (length countryData)"
    by simp
  show ?thesis
    using request nodata len sorted_tail_above [of year countryData "length countryData - 10"]
    by blast
qed

lemma forecast_request_input_example:
  "canada_series = filter (\<lambda>d. country d = selectedCountry canada_state) (originalData canada_state) \<and>
   canada_series \<noteq> [] \<and> sorted (map year canada_series) \<and>
   map_option req_recentData (snd (handlePredictionToggle True canada_state)) =
     Some [(1962, 18), (1967, 20), (1972, 22), (1977, 23), (1982, 25), (1987, 26), (1992, 28),
           (1997, 30), (2002, 31), (2007, 33)] \<and>
   map_option req_rangeStart (snd (handlePredictionToggle True canada_state)) = Some (Some 2008) \<and>
   map_option req_rangeEnd (snd (handlePredictionToggle True canada_state)) = Some 2025 \<and>
   [] = filter (\<lambda>d. country d = selectedCountry chile_only_state) (originalData chile_only_state) \<and>
   snd (handlePredictionToggle True chile_only_state) = None \<and>
   error (fst (handlePredictionToggle True chile_only_state)) =
     Some ''No data available for this country to make a prediction.''"
  using forecast_request_input [of canada_series canada_state]
    forecast_request_input [of "[]" chile_only_state]
  by (simp add: handlePredictionToggle_def canada_state_def chile_only_state_def
      fetchData_complete_def initial_state_def canada_series_def hist_row_def slice_last_def)

section \<open>Forecast errors\<close>

text \<open>
  A failed or ill-shaped answer of the oracle unchecks the box, ends \<open>predicting\<close>,
  sets a message and leaves the data as they are.
\<close>

lemma resume_failure:
  "result = NotAnArray \<or> result = Rejected msg \<Longrightarrow>
   \<not> showPrediction (handlePredictionToggle_resume req result s) \<and>
   \<not> predicting (handlePredictionToggle_resume req result s) \<and>
   error (handlePredictionToggle_resume req result s) \<noteq> None \<and>
   data (handlePredictionToggle_resume req result s) = data s"
  by (auto simp: handlePredictionToggle_resume_def)

text \<open>
  C1, at the failing input: the data set has no row of the selected country and the
  prediction is turned on. The handler sets the message and issues no request, and
  \<open>showPrediction\<close> stays true, after the handler and after the effect that follows it.
\<close>

theorem nodata_error_keeps_showPrediction:
  "snd (handlePredictionToggle True chile_only_state) = None \<and>
   error (fst (handlePredictionToggle True chile_only_state)) =
     Some ''No data available for this country to make a prediction.'' \<and>
   showPrediction (fst (handlePredictionToggle True chile_only_state)) \<and>
   snd (checkbox_onChange True chile_only_state) = [] \<and>
   showPrediction (fst (checkbox_onChange True chile_only_state))"
  by (simp add: checkbox_onChange_def controls_enabled_def useEffect_prediction_def
      handlePredictionToggle_def
      chile_only_state_def fetchData_complete_def initial_state_def hist_row_def)

text \<open>
  Turning the prediction on in \<open>ready_state\<close> issues the request twice, from the
  handler and from the effect. When the first call succeeds and the second fails, the
  box is unchecked and the working series of Canada keeps the predicted row.
\<close>

lemma checkbox_on_requests_twice:
  "checkbox_onChange True ready_state =
     (ready_state\<lparr>showPrediction := True, predicting := True\<rparr>, [canada_request, canada_request])"
  by (simp add: checkbox_onChange_def controls_enabled_def useEffect_prediction_def
      handlePredictionToggle_def
      ready_state_def fetchData_complete_def initial_state_def two_countries_def hist_row_def
      canada_request_def slice_last_def)

lemma failure_after_success_keeps_predicted_rows:
  "\<not> showPrediction
      (handlePredictionToggle_resume canada_request (Rejected None)
        (handlePredictionToggle_resume canada_request (PredictedValues [(2008, 34)])
          (fst (checkbox_onChange True ready_state)))) \<and>
   filteredData
     (data (handlePredictionToggle_resume canada_request (Rejected None)
        (handlePredictionToggle_resume canada_request (PredictedValues [(2008, 34)])
          (fst (checkbox_onChange True ready_state))))) ''Canada'' =
     [hist_row ''Canada'' 2007 33390141, predicted_row ''Canada'' 2008 34]"
  unfolding checkbox_on_requests_twice fst_conv
  by (simp add: handlePredictionToggle_resume_def mergeForecast_def
      newPredictedData_def canada_request_def ready_state_def fetchData_complete_def
      initial_state_def two_countries_def hist_row_def predicted_row_def is_predicted_def
      filteredData_def)

section \<open>Late forecast responses\<close>

text \<open>
  The state \<open>chile_forecast_state\<close> is reached from \<open>ready_state\<close> with a request for
  Canada still in flight: the prediction is turned on (two requests for Canada), the first
  answer arrives, Chile is selected, and the answer for Chile arrives.
\<close>

lemma chile_forecast_state_reached:
  "onCountryChange ''Chile''
     (handlePredictionToggle_resume canada_request (PredictedValues [(2008, 34)])
        (fst (checkbox_onChange True ready_state))) =
     (chile_forecast_state\<lparr>data := two_countries @ [predicted_row ''Canada'' 2008 34],
        predicting := True\<rparr>, Some chile_request) \<and>
   handlePredictionToggle_resume chile_request (PredictedValues [(2008, 17000000)])
     (chile_forecast_state\<lparr>data := two_countries @ [predicted_row ''Canada'' 2008 34],
        predicting := True\<rparr>) = chile_forecast_state"
  unfolding checkbox_on_requests_twice fst_conv
  by (simp add: onCountryChange_def controls_enabled_def useEffect_prediction_def
      handlePredictionToggle_def handlePredictionToggle_resume_def mergeForecast_def
      newPredictedData_def canada_request_def chile_request_def chile_forecast_state_def
      ready_state_def fetchData_complete_def initial_state_def two_countries_def hist_row_def
      predicted_row_def is_predicted_def slice_last_def uniqueCountries_def Set_spread_def)




end
